theory Spec2Isabelle
  imports Main "HOL-Library.Sublist"
begin

section \<open>Strings\<close>

text \<open>
  Strings are character lists; a character outside ASCII is the bytes of its UTF-8
  encoding. The patterns the sources search for (\<^verbatim>\<open>file://\<close>, \<^verbatim>\<open>content://\<close>) are
  ASCII, and an ASCII pattern occurs in the bytes exactly where it occurs in the string.
  Two string operations are defined here: \<^verbatim>\<open>String.prototype.replace\<close> with a string
  pattern (index.ts) and \<^verbatim>\<open>String.startsWith\<close> (the Kotlin module). The third,
  Kotlin's \<^verbatim>\<open>String.lowercase()\<close>, follows the Unicode case tables of the platform,
  which are not part of the repository: it is a field of the environment below.
\<close>

text \<open>
  \<^verbatim>\<open>s.replace(pat, rep)\<close> with a string pattern replaces the first occurrence of
  \<open>pat\<close> in \<open>s\<close>, wherever it stands, and leaves \<open>s\<close> alone when there is none. The
  empty pattern matches at position 0. (The \<^verbatim>\<open>$\<close> patterns of a replacement string
  are not modelled: the only replacement the sources pass is the empty string.)
\<close>

fun replace :: "string \<Rightarrow> string \<Rightarrow> string \<Rightarrow> string" where
  "replace [] pat rep = (if pat = [] then rep else [])"
| "replace (c # cs) pat rep =
     (if prefix pat (c # cs) then rep @ drop (length pat) (c # cs)
      else c # replace cs pat rep)"

definition startsWith :: "string \<Rightarrow> string \<Rightarrow> bool" where
  "startsWith s p = prefix p s"

section \<open>index.ts\<close>

text \<open>
  \<^verbatim>\<open>const processedUri = uri.replace('file://', '');
  return ExpoTextExtractorModule.extractTextFromImage(processedUri, options);\<close>
  The native module is a parameter: \<open>native\<close> is its \<^verbatim>\<open>extractTextFromImage\<close>.
\<close>

definition processedUri :: "string \<Rightarrow> string" where
  "processedUri uri = replace uri ''file://'' ''''"

definition index_extractTextFromImage :: "(string \<Rightarrow> 'o \<Rightarrow> 'p) \<Rightarrow> string \<Rightarrow> 'o \<Rightarrow> 'p" where
  "index_extractTextFromImage native uri options = native (processedUri uri) options"

definition index_getSupportedLanguages :: "('s \<Rightarrow> 'p) \<Rightarrow> 's \<Rightarrow> 'p" where
  "index_getSupportedLanguages native scriptName = native scriptName"

text \<open>The values of the enum \<^verbatim>\<open>TextRecognitionScript\<close> (types.ts).\<close>

definition TextRecognitionScript :: "string list" where
  "TextRecognitionScript = [''latin'', ''chinese'', ''devanagari'', ''japanese'', ''korean'']"

section \<open>ExpoTextExtractorModule.kt: data\<close>

record RecognitionOptionsRecord =
  script :: "string option"
  languages :: "string list option"

text \<open>
  A thrown \<^verbatim>\<open>Exception\<close> with its nullable message, and the \<^verbatim>\<open>CodedException\<close>
  a promise is rejected with: code, message, cause.
\<close>

datatype exn = Exception (message: "string option")

datatype codedException = CodedException (code: string) (coded_message: string) (cause: exn)

datatype promise = Resolved "string list" | Rejected codedException

text \<open>The five lazy recognizer properties of the module.\<close>

datatype recognizer =
  latinRecognizer | chineseRecognizer | devanagariRecognizer | japaneseRecognizer | koreanRecognizer

text \<open>
  Vendor objects are opaque: a recognizer handle, an input image and the Android context
  are numbers. \<^verbatim>\<open>Text\<close> is the vendor's result with its blocks; the module reads
  only the text of each block.
\<close>

type_synonym handle = nat
type_synonym image = nat
type_synonym androidContext = nat

datatype uri = Uri_parse string | Uri_fromFile string

record textBlock =
  "text" :: string

record visionText =
  textBlocks :: "textBlock list"

text \<open>
  The task \<^verbatim>\<open>recognizer.process\<close> returns completes either with a result (the success
  listener runs) or with an exception (the failure listener runs).
\<close>

datatype task = TaskSuccess visionText | TaskFailure exn

text \<open>
  Everything outside the repository that the module calls: the React context of
  \<^verbatim>\<open>appContext\<close> (nullable), \<^verbatim>\<open>File.exists\<close>, \<^verbatim>\<open>InputImage.fromFilePath\<close>,
  \<^verbatim>\<open>TextRecognition.getClient\<close> for the options of each property,
  \<^verbatim>\<open>TextRecognizer.process\<close>, \<^verbatim>\<open>TextRecognizer.close\<close> and the standard library's
  \<^verbatim>\<open>String.lowercase\<close>. Each call that can throw returns a sum, \<open>Inl\<close> the
  exception. The exceptions are instances of \<^verbatim>\<open>Exception\<close>, the class the module's
  handlers catch.
\<close>

record env =
  reactContext :: "androidContext option"
  file_exists :: "string \<Rightarrow> bool"
  fromFilePath :: "androidContext \<Rightarrow> uri \<Rightarrow> exn + image"
  getClient :: "recognizer \<Rightarrow> exn + handle"
  process :: "handle \<Rightarrow> image \<Rightarrow> exn + task"
  close :: "handle \<Rightarrow> exn + unit"
  lowercase :: "string \<Rightarrow> string"

text \<open>
  The module's state: the value each \<^verbatim>\<open>by lazy\<close> property holds once initialised, and
  the log of the calls made to the vendor's recognition API.
\<close>

datatype event = GetClient recognizer | is_Process: Process handle image | Close handle

record module_state =
  lazy :: "recognizer \<Rightarrow> handle option"
  calls :: "event list"

type_synonym 'a action = "module_state \<Rightarrow> (exn + 'a) \<times> module_state"

section \<open>ExpoTextExtractorModule.kt: operations\<close>

text \<open>
  Reading a \<^verbatim>\<open>by lazy\<close> property: the stored value when there is one; otherwise the
  initialiser runs, and its value is stored. An initialiser that throws stores nothing
  and the exception reaches the reader.
\<close>

definition lazy_value :: "env \<Rightarrow> recognizer \<Rightarrow> handle action" where
  "lazy_value env r s =
     (case lazy s r of
        Some h \<Rightarrow> (Inr h, s)
      | None \<Rightarrow>
          (case getClient env r of
             Inl error \<Rightarrow> (Inl error, s\<lparr>calls := calls s @ [GetClient r]\<rparr>)
           | Inr h \<Rightarrow> (Inr h, s\<lparr>lazy := (lazy s)(r := Some h), calls := calls s @ [GetClient r]\<rparr>)))"

text \<open>
  \<^verbatim>\<open>when (script?.lowercase()) { "chinese" -> chineseRecognizer ... else -> latinRecognizer }\<close>:
  first the property the branch names, then its reading.
\<close>

definition recognizerForScript :: "env \<Rightarrow> string option \<Rightarrow> recognizer" where
  "recognizerForScript env scriptName =
     (let tag = map_option (lowercase env) scriptName in
      if tag = Some ''chinese'' then chineseRecognizer
      else if tag = Some ''devanagari'' then devanagariRecognizer
      else if tag = Some ''japanese'' then japaneseRecognizer
      else if tag = Some ''korean'' then koreanRecognizer
      else latinRecognizer)"

definition getRecognizerForScript :: "env \<Rightarrow> string option \<Rightarrow> handle action" where
  "getRecognizerForScript env scriptName = lazy_value env (recognizerForScript env scriptName)"

definition availableScripts :: "string list" where
  "availableScripts = [''latin'', ''chinese'', ''devanagari'', ''japanese'', ''korean'']"

text \<open>
  The body of the \<^verbatim>\<open>try\<close> of \<^verbatim>\<open>extractTextFromImage\<close>, up to the task that
  \<^verbatim>\<open>process\<close> returns: \<open>Inl\<close> is an exception thrown inside the \<^verbatim>\<open>try\<close>.
  \<^verbatim>\<open>appContext.reactContext!!\<close> on a null context throws a NullPointerException, which
  carries no message. The promise is settled when a listener or the \<^verbatim>\<open>catch\<close> block
  runs; the model returns what it is settled with.
\<close>

definition extractTextFromImage_try ::
  "env \<Rightarrow> string \<Rightarrow> RecognitionOptionsRecord option \<Rightarrow> task action" where
  "extractTextFromImage_try env uriString options s =
     (case reactContext env of
        None \<Rightarrow> (Inl (Exception None), s)
      | Some context \<Rightarrow>
          (case (if startsWith uriString ''content://'' then Inr (Uri_parse uriString)
                 else if \<not> file_exists env uriString
                   then Inl (Exception (Some (''File not found: '' @ uriString)))
                 else Inr (Uri_fromFile uriString)) of
             Inl error \<Rightarrow> (Inl error, s)
           | Inr uri \<Rightarrow>
               (case fromFilePath env context uri of
                  Inl error \<Rightarrow> (Inl error, s)
                | Inr inputImage \<Rightarrow>
                    (case getRecognizerForScript env
                            (case options of None \<Rightarrow> None | Some r \<Rightarrow> script r) s of
                       (Inl error, s') \<Rightarrow> (Inl error, s')
                     | (Inr recognizer, s') \<Rightarrow>
                         (process env recognizer inputImage,
                          s'\<lparr>calls := calls s' @ [Process recognizer inputImage]\<rparr>)))))"

text \<open>The success listener, the failure listener and the \<^verbatim>\<open>catch\<close> block.\<close>

definition onSuccess :: "visionText \<Rightarrow> promise" where
  "onSuccess visionText = Resolved (map text (textBlocks visionText))"

definition onFailure :: "exn \<Rightarrow> promise" where
  "onFailure error =
     Rejected (CodedException ''TEXT_RECOGNITION_ERROR''
       (case message error of Some m \<Rightarrow> m | None \<Rightarrow> ''Text recognition failed'') error)"

definition onException :: "exn \<Rightarrow> promise" where
  "onException error =
     Rejected (CodedException ''UNKNOWN_ERROR''
       (case message error of Some m \<Rightarrow> m | None \<Rightarrow> ''Unknown error'') error)"

definition extractTextFromImage ::
  "env \<Rightarrow> string \<Rightarrow> RecognitionOptionsRecord option \<Rightarrow> module_state \<Rightarrow> promise \<times> module_state" where
  "extractTextFromImage env uriString options s =
     (case extractTextFromImage_try env uriString options s of
        (Inl error, s') \<Rightarrow> (onException error, s')
      | (Inr (TaskSuccess visionText), s') \<Rightarrow> (onSuccess visionText, s')
      | (Inr (TaskFailure error), s') \<Rightarrow> (onFailure error, s'))"

definition getSupportedLanguages :: "string option \<Rightarrow> promise" where
  "getSupportedLanguages scriptName = Resolved availableScripts"

text \<open>
  \<^verbatim>\<open>onDestroy\<close>: five times \<^verbatim>\<open>try { r.close() } catch (_: Exception) {}\<close>, each
  reading its lazy property, then \<^verbatim>\<open>super.onDestroy()\<close>, which belongs to the
  framework and is taken to do nothing to this state.
\<close>

definition closeRecognizer :: "env \<Rightarrow> recognizer \<Rightarrow> unit action" where
  "closeRecognizer env r s =
     (case lazy_value env r s of
        (Inl error, s') \<Rightarrow> (Inl error, s')
      | (Inr h, s') \<Rightarrow> (close env h, s'\<lparr>calls := calls s' @ [Close h]\<rparr>))"

definition tryCatchIgnore :: "unit action \<Rightarrow> unit action" where
  "tryCatchIgnore a s = (case a s of (Inl error, s') \<Rightarrow> (Inr (), s') | (Inr u, s') \<Rightarrow> (Inr u, s'))"

definition andThen :: "unit action \<Rightarrow> unit action \<Rightarrow> unit action" where
  "andThen a b s = (case a s of (Inl error, s') \<Rightarrow> (Inl error, s') | (Inr u, s') \<Rightarrow> b s')"

definition super_onDestroy :: "unit action" where
  "super_onDestroy s = (Inr (), s)"

definition onDestroy :: "env \<Rightarrow> unit action" where
  "onDestroy env =
     andThen (tryCatchIgnore (closeRecognizer env latinRecognizer))
    (andThen (tryCatchIgnore (closeRecognizer env chineseRecognizer))
    (andThen (tryCatchIgnore (closeRecognizer env devanagariRecognizer))
    (andThen (tryCatchIgnore (closeRecognizer env japaneseRecognizer))
    (andThen (tryCatchIgnore (closeRecognizer env koreanRecognizer))
     super_onDestroy))))"

text \<open>
  Two readings used in the statements below: \<^verbatim>\<open>options?.script\<close>, and the URI the
  \<^verbatim>\<open>try\<close> builds for a locator that passes its check.
\<close>

abbreviation scriptOf :: "RecognitionOptionsRecord option \<Rightarrow> string option" where
  "scriptOf options \<equiv> (case options of None \<Rightarrow> None | Some r \<Rightarrow> script r)"

abbreviation locatorUri :: "string \<Rightarrow> uri" where
  "locatorUri uriString \<equiv>
     (if startsWith uriString ''content://'' then Uri_parse uriString else Uri_fromFile uriString)"

section \<open>ExpoTextExtractorModule.swift: the supported languages\<close>

text \<open>
  \<^verbatim>\<open>do { let languages = try request.supportedRecognitionLanguages();
  promise.resolve(languages) } catch { promise.resolve(fallbackLanguages) }\<close>.
  The vendor's query is a parameter: the list it returns, or \<open>Inl\<close> what it throws.
  The script argument is not read.
\<close>

definition fallbackLanguages :: "string list" where
  "fallbackLanguages =
     [''en-US'', ''fr-FR'', ''it-IT'', ''de-DE'', ''es-ES'', ''pt-BR'',
      ''zh-Hans'', ''zh-Hant'', ''ja-JP'', ''ko-KR'']"

definition ios_getSupportedLanguages :: "exn + string list \<Rightarrow> string option \<Rightarrow> promise" where
  "ios_getSupportedLanguages supportedRecognitionLanguages scriptName =
     (case supportedRecognitionLanguages of
        Inr langs \<Rightarrow> Resolved langs
      | Inl error \<Rightarrow> Resolved fallbackLanguages)"

section \<open>A concrete environment\<close>

text \<open>
  One device for the closed instances below: a single image file, whose text has two
  blocks; a vendor whose Korean client cannot be built and whose Japanese client fails to
  close; handles 1 to 5. Its \<^verbatim>\<open>lowercase\<close> does what the platform's does on ASCII
  text and on U+212A KELVIN SIGN (the bytes E2 84 AA), which lowercases to \<^verbatim>\<open>k\<close>; it
  leaves every other byte alone.
\<close>

definition receipt :: visionText where
  "receipt = \<lparr>textBlocks = [\<lparr>text = ''TOTAL''\<rparr>, \<lparr>text = ''12.50''\<rparr>]\<rparr>"

definition device_lowercase_char :: "char \<Rightarrow> char" where
  "device_lowercase_char c =
     (case map_of (zip ''ABCDEFGHIJKLMNOPQRSTUVWXYZ'' ''abcdefghijklmnopqrstuvwxyz'') c of
        Some l \<Rightarrow> l
      | None \<Rightarrow> c)"

definition kelvin :: string where
  "kelvin = [CHR 0xE2, CHR 0x84, CHR 0xAA]"

fun device_lowercase :: "string \<Rightarrow> string" where
  "device_lowercase (a # b # c # cs) =
     (if [a, b, c] = [CHR 0xE2, CHR 0x84, CHR 0xAA] then CHR ''k'' # device_lowercase cs
      else device_lowercase_char a # device_lowercase (b # c # cs))"
| "device_lowercase (a # cs) = device_lowercase_char a # device_lowercase cs"
| "device_lowercase [] = []"

definition device :: env where
  "device =
     \<lparr>reactContext = Some 0,
      file_exists = (\<lambda>path. path = ''/tmp/receipt.jpg'' \<or> path = ''/tmp/blank.jpg''),
      fromFilePath = (\<lambda>context u.
        if u = Uri_fromFile ''/tmp/receipt.jpg'' then Inr 7
        else if u = Uri_fromFile ''/tmp/blank.jpg'' then Inr 8
        else Inl (Exception (Some ''Failed to open file''))),
      getClient = (\<lambda>r. case r of
          latinRecognizer \<Rightarrow> Inr 1
        | chineseRecognizer \<Rightarrow> Inr 2
        | devanagariRecognizer \<Rightarrow> Inr 3
        | japaneseRecognizer \<Rightarrow> Inr 4
        | koreanRecognizer \<Rightarrow> Inl (Exception (Some ''model unavailable''))),
      process = (\<lambda>h i.
        if i = 7 then (if h = 3 then Inr (TaskFailure (Exception None)) else Inr (TaskSuccess receipt))
        else Inr (TaskSuccess \<lparr>textBlocks = []\<rparr>)),
      close = (\<lambda>h. if h = 4 then Inl (Exception (Some ''already closed'')) else Inr ()),
      lowercase = device_lowercase\<rparr>"

text \<open>The same device while the React context is gone.\<close>

definition detached :: env where
  "detached = device\<lparr>reactContext := None\<rparr>"

definition fresh :: module_state where
  "fresh = \<lparr>lazy = (\<lambda>r. None), calls = []\<rparr>"

section \<open>Facts about the string operations\<close>

lemma sublist_tail: "sublist p ys \<Longrightarrow> sublist p (y # ys)"
  by (rule sublist_Cons_right [THEN iffD2, OF disjI2])

lemma replace_prefix: "prefix pat s \<Longrightarrow> replace s pat rep = rep @ drop (length pat) s"
  by (cases s) auto

lemma replace_absent: "\<not> sublist pat s \<Longrightarrow> replace s pat rep = s"
proof (induction s)
  case Nil
  then have "pat \<noteq> []" by auto
  then show ?case by simp
next
  case (Cons c cs)
  have np: "\<not> prefix pat (c # cs)"
    using Cons.prems prefix_imp_sublist by blast
  have "\<not> sublist pat cs"
    using Cons.prems sublist_tail [of pat cs c] by auto
  then have "replace cs pat rep = cs"
    by (rule Cons.IH)
  moreover have "replace (c # cs) pat rep = c # replace cs pat rep"
    using np by (simp only: replace.simps if_False)
  ultimately show ?case by (simp only:)
qed

lemma prefix_shorter:
  assumes "prefix p (a @ b)" and "length p \<le> length a"
  shows "prefix p a"
proof -
  from assms(1) obtain zs where "a @ b = p @ zs"
    by (auto simp: prefix_def)
  then have "take (length p) (a @ b) = p"
    by simp
  with assms(2) have "p = take (length p) a"
    by simp
  then show ?thesis
    by (metis take_is_prefix)
qed

text \<open>
  The first occurrence is the one replaced: when the pattern does not occur in \<open>xs\<close>
  followed by all but the last character of the pattern, \<open>xs\<close> stays and the pattern
  after it goes.
\<close>

lemma replace_first:
  "\<not> sublist pat (xs @ butlast pat) \<Longrightarrow> replace (xs @ pat @ ys) pat rep = xs @ rep @ ys"
proof (induction xs)
  case Nil
  then show ?case by (simp add: replace_prefix)
next
  case (Cons x xs)
  have ne: "pat \<noteq> []" using Cons.prems by auto
  have np: "\<not> prefix pat (x # xs @ pat @ ys)"
  proof
    assume p: "prefix pat (x # xs @ pat @ ys)"
    have "x # xs @ pat @ ys = (x # xs @ butlast pat) @ (last pat # ys)"
      using ne by simp
    with p have "prefix pat ((x # xs @ butlast pat) @ (last pat # ys))"
      by (simp only:)
    moreover have "length pat \<le> length (x # xs @ butlast pat)"
      by simp
    ultimately have "prefix pat (x # xs @ butlast pat)"
      by (rule prefix_shorter)
    then have "sublist pat ((x # xs) @ butlast pat)"
      by (simp only: append_Cons prefix_imp_sublist)
    with Cons.prems show False by (rule notE)
  qed
  have "\<not> sublist pat (xs @ butlast pat)"
    using Cons.prems sublist_tail [of pat "xs @ butlast pat" x] by auto
  then have "replace (xs @ pat @ ys) pat rep = xs @ rep @ ys"
    by (rule Cons.IH)
  moreover have "replace (x # xs @ pat @ ys) pat rep = x # replace (xs @ pat @ ys) pat rep"
    using np by (simp only: replace.simps if_False)
  ultimately show ?case by simp
qed

section \<open>The URI index.ts dispatches\<close>

text \<open>
  What \<^verbatim>\<open>uri.replace('file://', '')\<close> does, in three parts: a leading
  \<^verbatim>\<open>file://\<close> is stripped; a URI with no \<^verbatim>\<open>file://\<close> in it is dispatched as it
  is; and a URI with \<^verbatim>\<open>file://\<close> further inside loses its first occurrence.
\<close>

lemma processedUri_strips_prefix: "processedUri (''file://'' @ rest) = rest"
  by (simp add: processedUri_def)

lemma processedUri_without_scheme: "\<not> sublist ''file://'' uri \<Longrightarrow> processedUri uri = uri"
  unfolding processedUri_def by (rule replace_absent)

lemma processedUri_first_occurrence:
  "\<not> sublist ''file://'' (before @ ''file:/'')
   \<Longrightarrow> processedUri (before @ ''file://'' @ rest) = before @ rest"
  using replace_first [of "''file://''" before rest "[]"]
  by (simp add: processedUri_def)

text \<open>
  C2. The claim is that a URI that does not begin with \<^verbatim>\<open>file://\<close> is dispatched
  unchanged. This URI does not begin with \<^verbatim>\<open>file://\<close>, and the native module
  receives another one.
\<close>

theorem index_extractTextFromImage_inner_occurrence:
  "\<not> prefix ''file://'' ''content://files/file://a.jpg''
   \<and> index_extractTextFromImage native ''content://files/file://a.jpg'' options
     = native ''content://files/a.jpg'' options"
  by (simp add: index_extractTextFromImage_def processedUri_def)

section \<open>The paths through extractTextFromImage\<close>

lemma lazy_value_calls:
  "calls (snd (lazy_value env r s)) = calls s
   \<or> calls (snd (lazy_value env r s)) = calls s @ [GetClient r]"
  by (auto simp: lazy_value_def split: option.splits sum.splits)

text \<open>
  A property that has been read with success holds its handle: the next reading returns
  the same handle and calls nothing.
\<close>

lemma lazy_value_reuse:
  "lazy_value env r s = (Inr h, s') \<Longrightarrow> lazy_value env r s' = (Inr h, s')"
  by (auto simp: lazy_value_def split: option.splits sum.splits)

lemma lazy_value_no_process:
  "filter is_Process (calls (snd (lazy_value env r s))) = filter is_Process (calls s)"
  using lazy_value_calls [of env r s] by auto

lemma getRecognizerForScript_no_process:
  "getRecognizerForScript env x s = (res, s1)
   \<Longrightarrow> filter is_Process (calls s1) = filter is_Process (calls s)"
  using lazy_value_no_process [of env "recognizerForScript env x" s]
  by (simp add: getRecognizerForScript_def)

text \<open>The five ways through the \<^verbatim>\<open>try\<close>, each with what it returns.\<close>

lemma try_no_context:
  "reactContext env = None
   \<Longrightarrow> extractTextFromImage_try env uriString options s = (Inl (Exception None), s)"
  by (simp add: extractTextFromImage_try_def)

lemma try_not_found:
  "reactContext env = Some c \<Longrightarrow> \<not> startsWith uriString ''content://''
   \<Longrightarrow> \<not> file_exists env uriString
   \<Longrightarrow> extractTextFromImage_try env uriString options s
       = (Inl (Exception (Some (''File not found: '' @ uriString))), s)"
  by (simp add: extractTextFromImage_try_def)

lemma try_unreadable:
  "reactContext env = Some c \<Longrightarrow> startsWith uriString ''content://'' \<or> file_exists env uriString
   \<Longrightarrow> fromFilePath env c (locatorUri uriString) = Inl error
   \<Longrightarrow> extractTextFromImage_try env uriString options s = (Inl error, s)"
  by (auto simp: extractTextFromImage_try_def)

lemma try_no_recognizer:
  "reactContext env = Some c \<Longrightarrow> startsWith uriString ''content://'' \<or> file_exists env uriString
   \<Longrightarrow> fromFilePath env c (locatorUri uriString) = Inr inputImage
   \<Longrightarrow> getRecognizerForScript env (scriptOf options) s = (Inl error, s1)
   \<Longrightarrow> extractTextFromImage_try env uriString options s = (Inl error, s1)"
  by (auto simp: extractTextFromImage_try_def)

lemma try_process:
  "reactContext env = Some c \<Longrightarrow> startsWith uriString ''content://'' \<or> file_exists env uriString
   \<Longrightarrow> fromFilePath env c (locatorUri uriString) = Inr inputImage
   \<Longrightarrow> getRecognizerForScript env (scriptOf options) s = (Inr recognizer, s1)
   \<Longrightarrow> extractTextFromImage_try env uriString options s
       = (process env recognizer inputImage,
          s1\<lparr>calls := calls s1 @ [Process recognizer inputImage]\<rparr>)"
  by (auto simp: extractTextFromImage_try_def)

lemma try_cases:
  obtains (no_context) "reactContext env = None"
  | (not_found) c where "reactContext env = Some c"
      "\<not> startsWith uriString ''content://''" "\<not> file_exists env uriString"
  | (unreadable) c error where "reactContext env = Some c"
      "startsWith uriString ''content://'' \<or> file_exists env uriString"
      "fromFilePath env c (locatorUri uriString) = Inl error"
  | (no_recognizer) c inputImage error s1 where "reactContext env = Some c"
      "startsWith uriString ''content://'' \<or> file_exists env uriString"
      "fromFilePath env c (locatorUri uriString) = Inr inputImage"
      "getRecognizerForScript env (scriptOf options) s = (Inl error, s1)"
  | (process) c inputImage recognizer s1 where "reactContext env = Some c"
      "startsWith uriString ''content://'' \<or> file_exists env uriString"
      "fromFilePath env c (locatorUri uriString) = Inr inputImage"
      "getRecognizerForScript env (scriptOf options) s = (Inr recognizer, s1)"
proof (cases "reactContext env")
  case None
  then show ?thesis by (rule no_context)
next
  case (Some c)
  show ?thesis
  proof (cases "startsWith uriString ''content://'' \<or> file_exists env uriString")
    case False
    with Some show ?thesis by (intro not_found [of c]) auto
  next
    case True
    show ?thesis
    proof (cases "fromFilePath env c (locatorUri uriString)")
      case (Inl error)
      with Some True show ?thesis by (intro unreadable [of c error])
    next
      case (Inr inputImage)
      obtain res s1 where g: "getRecognizerForScript env (scriptOf options) s = (res, s1)"
        by (cases "getRecognizerForScript env (scriptOf options) s")
      show ?thesis
      proof (cases res)
        case (Inl error)
        with Some True Inr g show ?thesis
          by (intro no_recognizer [of c inputImage error s1]) auto
      next
        case (Inr recognizer)
        with Some True \<open>fromFilePath env c (locatorUri uriString) = Inr inputImage\<close> g
        show ?thesis by (intro process [of c inputImage recognizer s1]) auto
      qed
    qed
  qed
qed

lemma extractTextFromImage_fst:
  "extractTextFromImage_try env uriString options s = (res, s')
   \<Longrightarrow> extractTextFromImage env uriString options s
     = (case res of Inl error \<Rightarrow> onException error
        | Inr (TaskSuccess visionText) \<Rightarrow> onSuccess visionText
        | Inr (TaskFailure error) \<Rightarrow> onFailure error, s')"
  by (simp add: extractTextFromImage_def split: sum.splits task.splits)

lemma result_no_context:
  "reactContext env = None
   \<Longrightarrow> extractTextFromImage env uriString options s = (onException (Exception None), s)"
  by (simp add: extractTextFromImage_fst [OF try_no_context])

lemma result_not_found:
  "reactContext env = Some c \<Longrightarrow> \<not> startsWith uriString ''content://''
   \<Longrightarrow> \<not> file_exists env uriString
   \<Longrightarrow> extractTextFromImage env uriString options s
       = (onException (Exception (Some (''File not found: '' @ uriString))), s)"
  by (simp add: extractTextFromImage_fst [OF try_not_found])

lemma result_unreadable:
  "reactContext env = Some c \<Longrightarrow> startsWith uriString ''content://'' \<or> file_exists env uriString
   \<Longrightarrow> fromFilePath env c (locatorUri uriString) = Inl error
   \<Longrightarrow> extractTextFromImage env uriString options s = (onException error, s)"
  by (simp add: extractTextFromImage_fst [OF try_unreadable])

lemma result_no_recognizer:
  "reactContext env = Some c \<Longrightarrow> startsWith uriString ''content://'' \<or> file_exists env uriString
   \<Longrightarrow> fromFilePath env c (locatorUri uriString) = Inr inputImage
   \<Longrightarrow> getRecognizerForScript env (scriptOf options) s = (Inl error, s1)
   \<Longrightarrow> extractTextFromImage env uriString options s = (onException error, s1)"
  by (simp add: extractTextFromImage_fst [OF try_no_recognizer])

lemma result_process:
  "reactContext env = Some c \<Longrightarrow> startsWith uriString ''content://'' \<or> file_exists env uriString
   \<Longrightarrow> fromFilePath env c (locatorUri uriString) = Inr inputImage
   \<Longrightarrow> getRecognizerForScript env (scriptOf options) s = (Inr recognizer, s1)
   \<Longrightarrow> extractTextFromImage env uriString options s
       = (case process env recognizer inputImage of
            Inl error \<Rightarrow> onException error
          | Inr (TaskSuccess visionText) \<Rightarrow> onSuccess visionText
          | Inr (TaskFailure error) \<Rightarrow> onFailure error,
          s1\<lparr>calls := calls s1 @ [Process recognizer inputImage]\<rparr>)"
  by (simp add: extractTextFromImage_fst [OF try_process])

lemma extractTextFromImage_process_once:
  "length (filter is_Process (calls (snd (extractTextFromImage env uriString options s))))
     \<le> Suc (length (filter is_Process (calls s)))"
proof (cases rule: try_cases [where env = env and uriString = uriString
      and options = options and s = s])
  case no_context
  then show ?thesis by (simp add: result_no_context)
next
  case (not_found c)
  then show ?thesis by (simp add: result_not_found)
next
  case (unreadable c error)
  then show ?thesis by (simp add: result_unreadable)
next
  case (no_recognizer c inputImage error s1)
  then show ?thesis
    by (simp add: result_no_recognizer getRecognizerForScript_no_process)
next
  case (process c inputImage recognizer s1)
  then show ?thesis
    by (simp add: result_process getRecognizerForScript_no_process)
qed

lemma extractTextFromImage_codes:
  "fst (extractTextFromImage env uriString options s) = Rejected ce
   \<Longrightarrow> code ce = ''UNKNOWN_ERROR'' \<or> code ce = ''TEXT_RECOGNITION_ERROR''"
  by (cases "extractTextFromImage_try env uriString options s")
     (auto simp: extractTextFromImage_def onException_def onFailure_def onSuccess_def
           split: sum.splits task.splits)

section \<open>The locator check of extractTextFromImage\<close>

text \<open>
  C1. A locator that does not resolve to a readable image is either a path (anything
  that does not start with \<^verbatim>\<open>content://\<close>) for which \<^verbatim>\<open>File.exists\<close> is false, or a
  locator whose image \<^verbatim>\<open>InputImage.fromFilePath\<close> cannot open. In both cases the promise
  is rejected with the code \<^verbatim>\<open>UNKNOWN_ERROR\<close>, the module's code for everything that
  is not a failure of the recognition itself, and the module's state is the one before the
  call: no recognizer was built and \<^verbatim>\<open>process\<close> was not called. For a missing path,
  with the React context at hand, the message is \<^verbatim>\<open>File not found: \<close> and the locator.
\<close>

theorem extractTextFromImage_missing_resource:
  assumes "(\<not> startsWith uriString ''content://'' \<and> \<not> file_exists env uriString)
         \<or> (\<exists>c error. reactContext env = Some c
                \<and> fromFilePath env c (locatorUri uriString) = Inl error)"
  shows "(\<exists>msg error. fst (extractTextFromImage env uriString options s)
              = Rejected (CodedException ''UNKNOWN_ERROR'' msg error))
       \<and> snd (extractTextFromImage env uriString options s) = s
       \<and> (reactContext env \<noteq> None \<and> \<not> startsWith uriString ''content://''
            \<and> \<not> file_exists env uriString
            \<longrightarrow> fst (extractTextFromImage env uriString options s)
                = Rejected (CodedException ''UNKNOWN_ERROR'' (''File not found: '' @ uriString)
                    (Exception (Some (''File not found: '' @ uriString)))))"
proof (cases rule: try_cases [where env = env and uriString = uriString
      and options = options and s = s])
  case no_context
  then show ?thesis by (auto simp: result_no_context onException_def)
next
  case (not_found c)
  then show ?thesis by (auto simp: result_not_found onException_def)
next
  case (unreadable c error)
  then show ?thesis by (auto simp: result_unreadable onException_def)
next
  case (no_recognizer c inputImage error s1)
  with assms show ?thesis by auto
next
  case (process c inputImage recognizer s1)
  with assms show ?thesis by auto
qed

theorem extractTextFromImage_missing_resource_witness:
  "\<not> startsWith ''/tmp/none.jpg'' ''content://'' \<and> \<not> file_exists device ''/tmp/none.jpg''
   \<and> extractTextFromImage device ''/tmp/none.jpg'' None fresh
     = (Rejected (CodedException ''UNKNOWN_ERROR'' ''File not found: /tmp/none.jpg''
          (Exception (Some ''File not found: /tmp/none.jpg''))), fresh)"
  using extractTextFromImage_missing_resource [of "''/tmp/none.jpg''" device None fresh]
  by (simp add: startsWith_def device_def extractTextFromImage_def extractTextFromImage_try_def
        onException_def)

text \<open>
  C1, as the claim has it, fails: the rejection does not tell that the resource is
  missing. While the React context is gone, a missing file and a file that exists and
  can be read are rejected with the same exception, code and message. With the context at
  hand, a missing file carries the code of a recognizer that could not be built for an
  image that is there.
\<close>

theorem extractTextFromImage_missing_resource_counterexample:
  "\<not> file_exists detached ''/tmp/none.jpg''
   \<and> file_exists detached ''/tmp/receipt.jpg''
   \<and> fromFilePath detached 0 (Uri_fromFile ''/tmp/receipt.jpg'') = Inr 7
   \<and> fst (extractTextFromImage detached ''/tmp/none.jpg'' None fresh)
     = Rejected (CodedException ''UNKNOWN_ERROR'' ''Unknown error'' (Exception None))
   \<and> fst (extractTextFromImage detached ''/tmp/receipt.jpg'' None fresh)
     = Rejected (CodedException ''UNKNOWN_ERROR'' ''Unknown error'' (Exception None))
   \<and> \<not> file_exists device ''/tmp/none.jpg''
   \<and> fst (extractTextFromImage device ''/tmp/none.jpg'' None fresh)
     = Rejected (CodedException ''UNKNOWN_ERROR'' ''File not found: /tmp/none.jpg''
         (Exception (Some ''File not found: /tmp/none.jpg'')))
   \<and> file_exists device ''/tmp/receipt.jpg''
   \<and> fst (extractTextFromImage device ''/tmp/receipt.jpg''
          (Some \<lparr>script = Some ''korean'', languages = None\<rparr>) fresh)
     = Rejected (CodedException ''UNKNOWN_ERROR'' ''model unavailable''
         (Exception (Some ''model unavailable'')))"
  by (simp add: detached_def startsWith_def device_def extractTextFromImage_def
        extractTextFromImage_try_def onException_def getRecognizerForScript_def
        recognizerForScript_def device_lowercase_char_def lazy_value_def fresh_def)

section \<open>The outcome of extractTextFromImage\<close>

text \<open>
  C4. Every request ends in one of two ways: the promise resolves with the text of every
  block of the result the vendor's task succeeded with, or it is rejected. When that
  result has no block, the promise resolves with the empty list.
\<close>

theorem extractTextFromImage_all_or_nothing:
  "((\<exists>c inputImage recognizer s1 visionText.
        reactContext env = Some c
      \<and> (startsWith uriString ''content://'' \<or> file_exists env uriString)
      \<and> fromFilePath env c (locatorUri uriString) = Inr inputImage
      \<and> getRecognizerForScript env (scriptOf options) s = (Inr recognizer, s1)
      \<and> process env recognizer inputImage = Inr (TaskSuccess visionText)
      \<and> fst (extractTextFromImage env uriString options s)
          = Resolved (map text (textBlocks visionText)))
    \<or> (\<exists>error. fst (extractTextFromImage env uriString options s) = Rejected error))
   \<and> (\<forall>c inputImage recognizer s1 visionText.
        reactContext env = Some c
      \<and> (startsWith uriString ''content://'' \<or> file_exists env uriString)
      \<and> fromFilePath env c (locatorUri uriString) = Inr inputImage
      \<and> getRecognizerForScript env (scriptOf options) s = (Inr recognizer, s1)
      \<and> process env recognizer inputImage = Inr (TaskSuccess visionText)
      \<and> textBlocks visionText = []
      \<longrightarrow> fst (extractTextFromImage env uriString options s) = Resolved [])"
proof (intro conjI allI impI; (elim conjE)?)
  fix c inputImage recognizer s1 visionText
  assume "reactContext env = Some c"
    "startsWith uriString ''content://'' \<or> file_exists env uriString"
    "fromFilePath env c (locatorUri uriString) = Inr inputImage"
    "getRecognizerForScript env (scriptOf options) s = (Inr recognizer, s1)"
    "process env recognizer inputImage = Inr (TaskSuccess visionText)"
    "textBlocks visionText = []"
  then show "fst (extractTextFromImage env uriString options s) = Resolved []"
    by (simp add: result_process onSuccess_def)
next
  show "(\<exists>c inputImage recognizer s1 visionText.
        reactContext env = Some c
      \<and> (startsWith uriString ''content://'' \<or> file_exists env uriString)
      \<and> fromFilePath env c (locatorUri uriString) = Inr inputImage
      \<and> getRecognizerForScript env (scriptOf options) s = (Inr recognizer, s1)
      \<and> process env recognizer inputImage = Inr (TaskSuccess visionText)
      \<and> fst (extractTextFromImage env uriString options s)
          = Resolved (map text (textBlocks visionText)))
    \<or> (\<exists>error. fst (extractTextFromImage env uriString options s) = Rejected error)"
  proof (cases rule: try_cases [where env = env and uriString = uriString
        and options = options and s = s])
    case no_context
    then show ?thesis by (simp add: result_no_context onException_def)
  next
    case (not_found c)
    then show ?thesis by (simp add: result_not_found onException_def)
  next
    case (unreadable c error)
    then show ?thesis by (simp add: result_unreadable onException_def)
  next
    case (no_recognizer c inputImage error s1)
    then show ?thesis by (simp add: result_no_recognizer onException_def)
  next
    case (process c inputImage recognizer s1)
    note steps = this
    show ?thesis
    proof (cases "process env recognizer inputImage")
      case (Inl error)
      with steps show ?thesis by (simp add: result_process onException_def)
    next
      case (Inr t)
      show ?thesis
      proof (cases t)
        case (TaskSuccess visionText)
        with steps Inr have "fst (extractTextFromImage env uriString options s)
            = Resolved (map text (textBlocks visionText))"
          by (simp add: result_process onSuccess_def)
        with steps Inr TaskSuccess show ?thesis by blast
      next
        case (TaskFailure error)
        with steps Inr show ?thesis by (simp add: result_process onFailure_def)
      qed
    qed
  qed
qed

theorem extractTextFromImage_all_or_nothing_witness:
  "process device 1 8 = Inr (TaskSuccess \<lparr>textBlocks = []\<rparr>)
   \<and> fst (extractTextFromImage device ''/tmp/blank.jpg'' None fresh) = Resolved []
   \<and> fst (extractTextFromImage device ''/tmp/receipt.jpg'' None fresh)
     = Resolved (map text (textBlocks receipt))"
  using extractTextFromImage_all_or_nothing [of device "''/tmp/blank.jpg''" None fresh]
    extractTextFromImage_all_or_nothing [of device "''/tmp/receipt.jpg''" None fresh]
  by (simp add: startsWith_def device_def extractTextFromImage_def extractTextFromImage_try_def
        onSuccess_def getRecognizerForScript_def recognizerForScript_def lazy_value_def
        fresh_def receipt_def)

text \<open>
  C5. When the vendor's task succeeds, the promise resolves with the list the success
  listener builds: as long as the vendor's list of blocks, and at every position the text
  of the block at that position.
\<close>

theorem onSuccess_one_string_per_block:
  assumes "reactContext env = Some c"
    and "startsWith uriString ''content://'' \<or> file_exists env uriString"
    and "fromFilePath env c (locatorUri uriString) = Inr inputImage"
    and "getRecognizerForScript env (scriptOf options) s = (Inr recognizer, s1)"
    and "process env recognizer inputImage = Inr (TaskSuccess visionText)"
  shows "\<exists>ts. fst (extractTextFromImage env uriString options s) = Resolved ts
           \<and> onSuccess visionText = Resolved ts
           \<and> length ts = length (textBlocks visionText)
           \<and> (\<forall>i < length (textBlocks visionText). ts ! i = text (textBlocks visionText ! i))"
  using assms by (simp add: result_process onSuccess_def)

theorem onSuccess_one_string_per_block_witness:
  "fst (extractTextFromImage device ''/tmp/receipt.jpg'' None fresh)
     = Resolved [''TOTAL'', ''12.50'']
   \<and> map text (textBlocks receipt) = [''TOTAL'', ''12.50'']
   \<and> process device 1 7 = Inr (TaskSuccess receipt)"
  using onSuccess_one_string_per_block [of device 0 "''/tmp/receipt.jpg''" 7 None fresh 1
      "fresh\<lparr>lazy := (lazy fresh)(latinRecognizer := Some 1),
             calls := calls fresh @ [GetClient latinRecognizer]\<rparr>" receipt]
  by (simp add: startsWith_def device_def extractTextFromImage_def extractTextFromImage_try_def
        onSuccess_def getRecognizerForScript_def recognizerForScript_def lazy_value_def
        fresh_def receipt_def)

text \<open>
  C7. Every way to fail ends in a rejected promise: a missing React context, a missing
  file, an image that cannot be opened, a recognizer that cannot be built and a
  \<^verbatim>\<open>process\<close> that throws are rejected by the \<^verbatim>\<open>catch\<close> block, a failed task by
  the failure listener. The rejection carries \<^verbatim>\<open>UNKNOWN_ERROR\<close> or
  \<^verbatim>\<open>TEXT_RECOGNITION_ERROR\<close>, with the message of the exception or, when it has none,
  a fixed text. A rejected promise has one of these two codes, and one request calls
  \<^verbatim>\<open>process\<close> at most once.
\<close>

theorem extractTextFromImage_failures_rejected:
  "(reactContext env = None
      \<longrightarrow> fst (extractTextFromImage env uriString options s) = onException (Exception None))
   \<and> (\<forall>c. reactContext env = Some c
        \<and> \<not> startsWith uriString ''content://'' \<and> \<not> file_exists env uriString
      \<longrightarrow> fst (extractTextFromImage env uriString options s)
          = onException (Exception (Some (''File not found: '' @ uriString))))
   \<and> (\<forall>c error. reactContext env = Some c
        \<and> (startsWith uriString ''content://'' \<or> file_exists env uriString)
        \<and> fromFilePath env c (locatorUri uriString) = Inl error
      \<longrightarrow> fst (extractTextFromImage env uriString options s) = onException error)
   \<and> (\<forall>c inputImage error s1. reactContext env = Some c
        \<and> (startsWith uriString ''content://'' \<or> file_exists env uriString)
        \<and> fromFilePath env c (locatorUri uriString) = Inr inputImage
        \<and> getRecognizerForScript env (scriptOf options) s = (Inl error, s1)
      \<longrightarrow> fst (extractTextFromImage env uriString options s) = onException error)
   \<and> (\<forall>c inputImage recognizer error s1. reactContext env = Some c
        \<and> (startsWith uriString ''content://'' \<or> file_exists env uriString)
        \<and> fromFilePath env c (locatorUri uriString) = Inr inputImage
        \<and> getRecognizerForScript env (scriptOf options) s = (Inr recognizer, s1)
        \<and> process env recognizer inputImage = Inl error
      \<longrightarrow> fst (extractTextFromImage env uriString options s) = onException error)
   \<and> (\<forall>c inputImage recognizer error s1. reactContext env = Some c
        \<and> (startsWith uriString ''content://'' \<or> file_exists env uriString)
        \<and> fromFilePath env c (locatorUri uriString) = Inr inputImage
        \<and> getRecognizerForScript env (scriptOf options) s = (Inr recognizer, s1)
        \<and> process env recognizer inputImage = Inr (TaskFailure error)
      \<longrightarrow> fst (extractTextFromImage env uriString options s) = onFailure error)
   \<and> (\<forall>error. onException error
        = Rejected (CodedException ''UNKNOWN_ERROR''
            (case message error of Some m \<Rightarrow> m | None \<Rightarrow> ''Unknown error'') error))
   \<and> (\<forall>error. onFailure error
        = Rejected (CodedException ''TEXT_RECOGNITION_ERROR''
            (case message error of Some m \<Rightarrow> m | None \<Rightarrow> ''Text recognition failed'') error))
   \<and> (\<forall>ce. fst (extractTextFromImage env uriString options s) = Rejected ce
      \<longrightarrow> code ce \<in> {''UNKNOWN_ERROR'', ''TEXT_RECOGNITION_ERROR''})
   \<and> length (filter is_Process (calls (snd (extractTextFromImage env uriString options s))))
       \<le> Suc (length (filter is_Process (calls s)))"
proof (intro conjI allI impI; (elim conjE)?)
  show "length (filter is_Process (calls (snd (extractTextFromImage env uriString options s))))
       \<le> Suc (length (filter is_Process (calls s)))"
    by (rule extractTextFromImage_process_once)
next
  fix ce
  assume "fst (extractTextFromImage env uriString options s) = Rejected ce"
  then show "code ce \<in> {''UNKNOWN_ERROR'', ''TEXT_RECOGNITION_ERROR''}"
    using extractTextFromImage_codes [of env uriString options s ce] by blast
qed (simp_all add: result_no_context result_not_found result_unreadable result_no_recognizer
       result_process onException_def onFailure_def)

theorem extractTextFromImage_failures_rejected_witness:
  "fst (extractTextFromImage device ''/tmp/receipt.jpg''
          (Some \<lparr>script = Some ''devanagari'', languages = None\<rparr>) fresh)
     = Rejected (CodedException ''TEXT_RECOGNITION_ERROR'' ''Text recognition failed''
         (Exception None))
   \<and> fst (extractTextFromImage device ''/tmp/receipt.jpg''
          (Some \<lparr>script = Some ''korean'', languages = None\<rparr>) fresh)
     = Rejected (CodedException ''UNKNOWN_ERROR'' ''model unavailable''
         (Exception (Some ''model unavailable'')))
   \<and> fst (extractTextFromImage device ''content://media/1'' None fresh)
     = Rejected (CodedException ''UNKNOWN_ERROR'' ''Failed to open file''
         (Exception (Some ''Failed to open file'')))"
  using extractTextFromImage_failures_rejected [of device "''/tmp/receipt.jpg''"
      "Some \<lparr>script = Some ''devanagari'', languages = None\<rparr>" fresh]
    extractTextFromImage_failures_rejected [of device "''/tmp/receipt.jpg''"
      "Some \<lparr>script = Some ''korean'', languages = None\<rparr>" fresh]
    extractTextFromImage_failures_rejected [of device "''content://media/1''" None fresh]
  by (simp add: startsWith_def device_def extractTextFromImage_def extractTextFromImage_try_def
        onException_def onFailure_def getRecognizerForScript_def recognizerForScript_def
        device_lowercase_char_def lazy_value_def fresh_def)

section \<open>The recognizer selector\<close>

text \<open>The device's \<^verbatim>\<open>lowercase\<close>, evaluated.\<close>

lemma lowercase_device: "lowercase device = device_lowercase"
  by (simp add: device_def)

lemma device_lowercase_examples:
  "device_lowercase ''CHINESE'' = ''chinese''"
  "device_lowercase ''chinese'' = ''chinese''"
  "device_lowercase ''devanagari'' = ''devanagari''"
  "device_lowercase ''japanese'' = ''japanese''"
  "device_lowercase ''Korean'' = ''korean''"
  "device_lowercase ''korean'' = ''korean''"
  "device_lowercase ''klingon'' = ''klingon''"
  "device_lowercase (kelvin @ ''orean'') = ''korean''"
  by (simp_all add: device_lowercase_char_def kelvin_def)

lemma recognizerForScript_tag:
  "recognizerForScript env sc =
     (if map_option (lowercase env) sc = Some ''chinese'' then chineseRecognizer
      else if map_option (lowercase env) sc = Some ''devanagari'' then devanagariRecognizer
      else if map_option (lowercase env) sc = Some ''japanese'' then japaneseRecognizer
      else if map_option (lowercase env) sc = Some ''korean'' then koreanRecognizer
      else latinRecognizer)"
  unfolding recognizerForScript_def Let_def by (rule refl)

text \<open>
  C3, as the code has it. The selector compares the lowercase form of the script, as
  \<^verbatim>\<open>String.lowercase\<close> gives it: when that form is none of \<^verbatim>\<open>chinese\<close>,
  \<^verbatim>\<open>devanagari\<close>, \<^verbatim>\<open>japanese\<close>, \<^verbatim>\<open>korean\<close> (also when there is no script), it
  reads the Latin recognizer; when it is one of them, it reads that script's recognizer. No
  branch of the selection fails. This holds whatever the platform's case tables are.
\<close>

theorem getRecognizerForScript_selection:
  "(map_option (lowercase env) sc
        \<notin> {Some ''chinese'', Some ''devanagari'', Some ''japanese'', Some ''korean''}
      \<longrightarrow> getRecognizerForScript env sc = lazy_value env latinRecognizer)
   \<and> (map_option (lowercase env) sc = Some ''chinese''
      \<longrightarrow> getRecognizerForScript env sc = lazy_value env chineseRecognizer)
   \<and> (map_option (lowercase env) sc = Some ''devanagari''
      \<longrightarrow> getRecognizerForScript env sc = lazy_value env devanagariRecognizer)
   \<and> (map_option (lowercase env) sc = Some ''japanese''
      \<longrightarrow> getRecognizerForScript env sc = lazy_value env japaneseRecognizer)
   \<and> (map_option (lowercase env) sc = Some ''korean''
      \<longrightarrow> getRecognizerForScript env sc = lazy_value env koreanRecognizer)"
proof -
  define tag where "tag = map_option (lowercase env) sc"
  have "recognizerForScript env sc =
     (if tag = Some ''chinese'' then chineseRecognizer
      else if tag = Some ''devanagari'' then devanagariRecognizer
      else if tag = Some ''japanese'' then japaneseRecognizer
      else if tag = Some ''korean'' then koreanRecognizer
      else latinRecognizer)"
    unfolding tag_def by (rule recognizerForScript_tag)
  then show ?thesis
    unfolding getRecognizerForScript_def tag_def [symmetric] by simp
qed

theorem getRecognizerForScript_selection_witness:
  "getRecognizerForScript device None = lazy_value device latinRecognizer
   \<and> getRecognizerForScript device (Some ''klingon'') = lazy_value device latinRecognizer
   \<and> getRecognizerForScript device (Some ''chinese'') = lazy_value device chineseRecognizer
   \<and> getRecognizerForScript device (Some ''devanagari'') = lazy_value device devanagariRecognizer
   \<and> getRecognizerForScript device (Some ''japanese'') = lazy_value device japaneseRecognizer
   \<and> getRecognizerForScript device (Some ''Korean'') = lazy_value device koreanRecognizer
   \<and> getRecognizerForScript device (Some (kelvin @ ''orean'')) = lazy_value device koreanRecognizer"
  using getRecognizerForScript_selection [of device None]
    getRecognizerForScript_selection [of device "Some ''klingon''"]
    getRecognizerForScript_selection [of device "Some ''chinese''"]
    getRecognizerForScript_selection [of device "Some ''devanagari''"]
    getRecognizerForScript_selection [of device "Some ''japanese''"]
    getRecognizerForScript_selection [of device "Some ''Korean''"]
    getRecognizerForScript_selection [of device "Some (kelvin @ ''orean'')"]
  by (simp add: lowercase_device device_lowercase_char_def kelvin_def)

text \<open>
  C3, as the claim has it, fails: \<^verbatim>\<open>CHINESE\<close> is not a value of the enum, and the
  selector answers with the Chinese recognizer (handle 2 on this device), not with the
  Latin one (handle 1).
\<close>

theorem getRecognizerForScript_uppercase_counterexample:
  "''CHINESE'' \<notin> set TextRecognitionScript
   \<and> lowercase device ''CHINESE'' = ''chinese''
   \<and> fst (getRecognizerForScript device (Some ''CHINESE'') fresh) = Inr 2
   \<and> fst (lazy_value device chineseRecognizer fresh) = Inr 2
   \<and> fst (lazy_value device latinRecognizer fresh) = Inr 1"
  by (simp add: TextRecognitionScript_def getRecognizerForScript_def recognizerForScript_def
        device_lowercase_char_def lazy_value_def device_def fresh_def)

text \<open>
  C10. Where lowercasing the lowercase form of a script changes nothing, as the
  platform's \<^verbatim>\<open>String.lowercase\<close> does for every string, the selector does not tell
  the script from its lowercase form: both read the same recognizer, in every state. So
  a script whose lowercase form is \<^verbatim>\<open>chinese\<close> reads the Chinese recognizer, and so
  does that lowercase form. Two scripts with the same lowercase form read the same
  recognizer.
\<close>

theorem getRecognizerForScript_case_insensitive:
  assumes "lowercase env (lowercase env str) = lowercase env str"
  shows "getRecognizerForScript env (Some (lowercase env str)) = getRecognizerForScript env (Some str)
       \<and> (lowercase env str = ''chinese''
            \<longrightarrow> getRecognizerForScript env (Some str) = lazy_value env chineseRecognizer
              \<and> getRecognizerForScript env (Some ''chinese'') = lazy_value env chineseRecognizer)
       \<and> (lowercase env other = lowercase env str
            \<longrightarrow> getRecognizerForScript env (Some other) = getRecognizerForScript env (Some str))"
proof -
  have "recognizerForScript env (Some (lowercase env str)) = recognizerForScript env (Some str)"
    using assms by (simp only: recognizerForScript_tag option.map)
  moreover have "recognizerForScript env (Some other) = recognizerForScript env (Some str)"
    if "lowercase env other = lowercase env str"
    using that by (simp only: recognizerForScript_tag option.map)
  moreover have "recognizerForScript env (Some str) = chineseRecognizer"
    if "lowercase env str = ''chinese''"
    using that by (simp add: recognizerForScript_tag)
  moreover have "recognizerForScript env (Some ''chinese'') = chineseRecognizer"
    if "lowercase env str = ''chinese''"
    using that assms by (simp add: recognizerForScript_tag)
  ultimately show ?thesis
    by (simp add: getRecognizerForScript_def)
qed

theorem getRecognizerForScript_case_insensitive_witness:
  "lowercase device (lowercase device ''CHINESE'') = lowercase device ''CHINESE''
   \<and> lowercase device ''CHINESE'' = ''chinese''
   \<and> getRecognizerForScript device (Some ''chinese'') = getRecognizerForScript device (Some ''CHINESE'')
   \<and> getRecognizerForScript device (Some ''CHINESE'') = lazy_value device chineseRecognizer
   \<and> lowercase device (kelvin @ ''orean'') = ''korean''
   \<and> getRecognizerForScript device (Some ''korean'')
     = getRecognizerForScript device (Some (kelvin @ ''orean''))"
  using getRecognizerForScript_case_insensitive [of device "''CHINESE''" "''chinese''"]
    getRecognizerForScript_case_insensitive [of device "kelvin @ ''orean''" "''KOREAN''"]
  by (simp add: lowercase_device device_lowercase_char_def kelvin_def)

section \<open>The supported languages\<close>

text \<open>
  C6, as the code has it. Whatever the script argument, also through index.ts, the
  Android module resolves with its fixed list, which is not empty and has no entry twice.
  The iOS module resolves with the list the vendor's query returns, as it is, and with its
  fallback list when the query throws; the fallback list is not empty and has no entry
  twice. So the iOS answer is non-empty and free of duplicates whenever the vendor's list is.
\<close>

theorem getSupportedLanguages_both_platforms:
  "getSupportedLanguages sc = Resolved availableScripts
   \<and> index_getSupportedLanguages getSupportedLanguages sc = Resolved availableScripts
   \<and> availableScripts \<noteq> [] \<and> distinct availableScripts
   \<and> (\<forall>langs. ios_getSupportedLanguages (Inr langs) sc = Resolved langs
        \<and> index_getSupportedLanguages (ios_getSupportedLanguages (Inr langs)) sc
          = Resolved langs)
   \<and> (\<forall>error. ios_getSupportedLanguages (Inl error) sc = Resolved fallbackLanguages)
   \<and> fallbackLanguages \<noteq> [] \<and> distinct fallbackLanguages
   \<and> (\<forall>vendor. (\<forall>langs. vendor = Inr langs \<longrightarrow> langs \<noteq> [] \<and> distinct langs)
        \<longrightarrow> (\<exists>langs. ios_getSupportedLanguages vendor sc = Resolved langs
              \<and> langs \<noteq> [] \<and> distinct langs))"
proof -
  have fallback: "fallbackLanguages \<noteq> [] \<and> distinct fallbackLanguages"
    by (simp add: fallbackLanguages_def)
  have android: "availableScripts \<noteq> [] \<and> distinct availableScripts"
    by (simp add: availableScripts_def)
  have ios: "\<exists>langs. ios_getSupportedLanguages vendor sc = Resolved langs
              \<and> langs \<noteq> [] \<and> distinct langs"
    if "\<forall>langs. vendor = Inr langs \<longrightarrow> langs \<noteq> [] \<and> distinct langs"
    for vendor
    using that fallback by (cases vendor) (simp_all add: ios_getSupportedLanguages_def)
  show ?thesis
    using fallback android ios
    by (simp add: getSupportedLanguages_def index_getSupportedLanguages_def
          ios_getSupportedLanguages_def)
qed

theorem getSupportedLanguages_both_platforms_witness:
  "getSupportedLanguages (Some ''korean'') = Resolved availableScripts
   \<and> getSupportedLanguages None = Resolved availableScripts
   \<and> availableScripts \<noteq> [] \<and> distinct availableScripts
   \<and> ios_getSupportedLanguages (Inr [''en-US'', ''ja-JP'']) None = Resolved [''en-US'', ''ja-JP'']
   \<and> ios_getSupportedLanguages (Inl (Exception None)) (Some ''korean'') = Resolved fallbackLanguages
   \<and> fallbackLanguages \<noteq> [] \<and> distinct fallbackLanguages"
  using getSupportedLanguages_both_platforms [of "Some ''korean''"]
    getSupportedLanguages_both_platforms [of None]
  by (simp add: getSupportedLanguages_def availableScripts_def ios_getSupportedLanguages_def
        fallbackLanguages_def)

text \<open>
  C6, as the claim has it, fails on iOS: the vendor's list is passed on unchecked, so an
  empty list, or one with an entry twice, is what the promise resolves with.
\<close>

theorem getSupportedLanguages_ios_counterexample:
  "ios_getSupportedLanguages (Inr []) None = Resolved []
   \<and> index_getSupportedLanguages (ios_getSupportedLanguages (Inr [])) None = Resolved []
   \<and> ios_getSupportedLanguages (Inr [''en-US'', ''en-US'']) None = Resolved [''en-US'', ''en-US'']
   \<and> \<not> distinct [''en-US'', ''en-US'']"
  by (simp add: ios_getSupportedLanguages_def index_getSupportedLanguages_def)

section \<open>Teardown\<close>

lemma tryCatchIgnore_fst: "fst (tryCatchIgnore a s) = Inr ()"
  by (cases "a s") (auto simp: tryCatchIgnore_def split: sum.splits)

lemma andThen_tryCatchIgnore: "andThen (tryCatchIgnore a) b s = b (snd (tryCatchIgnore a s))"
  using tryCatchIgnore_fst [of a s]
  by (cases "tryCatchIgnore a s") (auto simp: andThen_def split: sum.splits)

text \<open>
  One \<^verbatim>\<open>try { r.close() } catch (_: Exception) {}\<close>: what the lazy properties hold
  after it, and the calls it adds.
\<close>

lemma close_step_lazy:
  "lazy (snd (tryCatchIgnore (closeRecognizer env r) s)) r' =
     (if r' = r \<and> lazy s r = None
      then (case getClient env r of Inl error \<Rightarrow> None | Inr h \<Rightarrow> Some h)
      else lazy s r')"
  by (auto simp: tryCatchIgnore_def closeRecognizer_def lazy_value_def
           split: option.splits sum.splits)

lemma close_step_calls:
  "calls (snd (tryCatchIgnore (closeRecognizer env r) s)) =
     calls s @ (case lazy s r of
                  Some h \<Rightarrow> [Close h]
                | None \<Rightarrow> (case getClient env r of
                             Inl error \<Rightarrow> [GetClient r]
                           | Inr h \<Rightarrow> [GetClient r, Close h]))"
  by (auto simp: tryCatchIgnore_def closeRecognizer_def lazy_value_def
           split: option.splits sum.splits)

lemma onDestroy_unfold:
  "onDestroy env s =
     (Inr (),
      snd (tryCatchIgnore (closeRecognizer env koreanRecognizer)
     (snd (tryCatchIgnore (closeRecognizer env japaneseRecognizer)
     (snd (tryCatchIgnore (closeRecognizer env devanagariRecognizer)
     (snd (tryCatchIgnore (closeRecognizer env chineseRecognizer)
     (snd (tryCatchIgnore (closeRecognizer env latinRecognizer) s))))))))))"
  by (simp add: onDestroy_def andThen_tryCatchIgnore super_onDestroy_def)

lemma onDestroy_calls:
  "calls (snd (onDestroy env s)) =
     calls s @ concat (map (\<lambda>r. case lazy s r of
                  Some h \<Rightarrow> [Close h]
                | None \<Rightarrow> (case getClient env r of
                             Inl error \<Rightarrow> [GetClient r]
                           | Inr h \<Rightarrow> [GetClient r, Close h]))
        [latinRecognizer, chineseRecognizer, devanagariRecognizer, japaneseRecognizer,
         koreanRecognizer])"
  by (simp add: onDestroy_unfold close_step_calls close_step_lazy)

text \<open>
  C8. \<^verbatim>\<open>onDestroy\<close> returns normally in every state and with every vendor, also one
  whose \<^verbatim>\<open>close\<close> or \<^verbatim>\<open>getClient\<close> throws. Every handle is closed during it: the
  handle a property already holds, and the handle of a property never read before, which
  the teardown builds first.
\<close>

theorem onDestroy_closes_every_handle:
  "fst (onDestroy env s) = Inr ()
   \<and> (\<forall>r h. lazy s r = Some h \<or> (lazy s r = None \<and> getClient env r = Inr h)
        \<longrightarrow> Close h \<in> set (drop (length (calls s)) (calls (snd (onDestroy env s)))))"
proof (intro conjI allI impI)
  show "fst (onDestroy env s) = Inr ()"
    by (simp add: onDestroy_unfold)
next
  fix r h
  assume handle: "lazy s r = Some h \<or> (lazy s r = None \<and> getClient env r = Inr h)"
  then have "Close h \<in> set (case lazy s r of
                  Some h \<Rightarrow> [Close h]
                | None \<Rightarrow> (case getClient env r of
                             Inl error \<Rightarrow> [GetClient r]
                           | Inr h \<Rightarrow> [GetClient r, Close h]))"
    by auto
  moreover have "r \<in> set [latinRecognizer, chineseRecognizer, devanagariRecognizer,
      japaneseRecognizer, koreanRecognizer]"
    by (cases r) simp_all
  ultimately show "Close h \<in> set (drop (length (calls s)) (calls (snd (onDestroy env s))))"
    unfolding onDestroy_calls by (simp only: append_eq_conv_conj drop_append length_append) auto
qed

theorem onDestroy_closes_every_handle_witness:
  "fst (onDestroy device fresh) = Inr ()
   \<and> close device 4 = Inl (Exception (Some ''already closed''))
   \<and> getClient device koreanRecognizer = Inl (Exception (Some ''model unavailable''))
   \<and> calls (snd (onDestroy device fresh))
     = [GetClient latinRecognizer, Close 1, GetClient chineseRecognizer, Close 2,
        GetClient devanagariRecognizer, Close 3, GetClient japaneseRecognizer, Close 4,
        GetClient koreanRecognizer]"
  using onDestroy_closes_every_handle [of device fresh]
  by (simp add: onDestroy_calls device_def fresh_def)

end
